theory Spec2Isabelle
  imports Complex_Main "HOL-Library.Char_ord" "HOL-Library.List_Lexorder" "HOL-Library.Sublist"
begin

section \<open>JavaScript values as the server meets them\<close>

text \<open>
  The handlers of \<^verbatim>\<open>server.js\<close> read the fields of a parsed JSON body. A field is absent
  (\<open>undefined\<close>), \<open>null\<close>, a boolean, a number or a string; arrays and objects as field
  values are outside this model. A number is a finite value, an infinity (the JSON text
  \<^verbatim>\<open>1e999\<close> parses to one) or NaN (which \<^verbatim>\<open>Number("abc")\<close> yields). Finite values are exact
  rationals: the rounding of a decimal text to binary64 is not modelled, so the model and
  the engine agree wherever the text is exactly representable (every integer of magnitude
  up to \<open>2^53\<close>, among others). A string is a list of code units, each in the range of
  \<^typ>\<open>char\<close>; its length is the number of code units, as \<^verbatim>\<open>.length\<close> counts.
\<close>

datatype jsnum = NaN | PosInf | NegInf | Fin rat

datatype jsval = JUndefined | JNull | JBool bool | JNum jsnum | JStr string

text \<open>
  An object is an association list from property names to values; the first binding of
  a name is the property. Reading a property that is not there gives \<open>undefined\<close>, which
  is also what destructuring (\<^verbatim>\<open>const { fullName, ... } = payload\<close>) binds.
\<close>

type_synonym object = "(string \<times> jsval) list"

definition property :: "object \<Rightarrow> string \<Rightarrow> jsval" where
  "property obj k = (case map_of obj k of Some v \<Rightarrow> v | None \<Rightarrow> JUndefined)"

text \<open>ToBoolean: what \<^verbatim>\<open>!x\<close>, \<^verbatim>\<open>x || y\<close> and \<^verbatim>\<open>x && y\<close> test.\<close>

fun truthy :: "jsval \<Rightarrow> bool" where
  "truthy JUndefined = False"
| "truthy JNull = False"
| "truthy (JBool b) = b"
| "truthy (JNum NaN) = False"
| "truthy (JNum (Fin q)) = (q \<noteq> 0)"
| "truthy (JNum _) = True"
| "truthy (JStr s) = (s \<noteq> [])"

definition js_or :: "jsval \<Rightarrow> jsval \<Rightarrow> jsval" where
  "js_or a b = (if truthy a then a else b)"

subsection \<open>Number(x): the numeric coercion\<close>

definition is_digit :: "char \<Rightarrow> bool" where
  "is_digit c = (c \<in> set ''0123456789'')"

definition StrWhiteSpaceChar :: "char \<Rightarrow> bool" where
  "StrWhiteSpaceChar c = ((of_char c :: nat) \<in> {9, 10, 11, 12, 13, 32, 160})"

definition trim :: "string \<Rightarrow> string" where
  "trim s = rev (dropWhile StrWhiteSpaceChar (rev (dropWhile StrWhiteSpaceChar s)))"

text \<open>The value of one digit in a base up to sixteen; \<open>None\<close> for any other character.\<close>

definition digit_of :: "nat \<Rightarrow> char \<Rightarrow> nat option" where
  "digit_of b c =
     (let n = (of_char c :: nat);
          v = (if 48 \<le> n \<and> n \<le> 57 then Some (n - 48)
               else if 97 \<le> n \<and> n \<le> 102 then Some (n - 87)
               else if 65 \<le> n \<and> n \<le> 70 then Some (n - 55)
               else None)
      in case v of None \<Rightarrow> None | Some d \<Rightarrow> if d < b then Some d else None)"

fun digits_val :: "nat \<Rightarrow> nat \<Rightarrow> string \<Rightarrow> nat option" where
  "digits_val b acc [] = Some acc"
| "digits_val b acc (c # cs) =
     (case digit_of b c of None \<Rightarrow> None | Some d \<Rightarrow> digits_val b (acc * b + d) cs)"

text \<open>A non-empty run of digits of the base, read as a number.\<close>

definition numeral_val :: "nat \<Rightarrow> string \<Rightarrow> nat option" where
  "numeral_val b ds = (if ds = [] then None else digits_val b 0 ds)"

text \<open>\<^verbatim>\<open>0x\<close>, \<^verbatim>\<open>0o\<close> and \<^verbatim>\<open>0b\<close> literals; they take no sign.\<close>

definition NonDecimalIntegerLiteral :: "string \<Rightarrow> nat option" where
  "NonDecimalIntegerLiteral t =
     (case t of
        z # x # ds \<Rightarrow>
          if z \<noteq> CHR ''0'' then None
          else if x \<in> set ''xX'' then numeral_val 16 ds
          else if x \<in> set ''oO'' then numeral_val 8 ds
          else if x \<in> set ''bB'' then numeral_val 2 ds
          else None
      | _ \<Rightarrow> None)"

definition pow10 :: "int \<Rightarrow> rat" where
  "pow10 e = (if 0 \<le> e then 10 ^ nat e else 1 / 10 ^ nat (- e))"

text \<open>What follows the mantissa: nothing, or \<^verbatim>\<open>e\<close>/\<^verbatim>\<open>E\<close>, an optional sign and digits.\<close>

definition ExponentPart :: "string \<Rightarrow> int option" where
  "ExponentPart r =
     (case r of
        [] \<Rightarrow> Some 0
      | e # r1 \<Rightarrow>
          if e \<notin> set ''eE'' then None
          else (case r1 of
                  [] \<Rightarrow> None
                | s # r2 \<Rightarrow>
                    if s = CHR ''-'' then map_option (\<lambda>n. - int n) (numeral_val 10 r2)
                    else if s = CHR ''+'' then map_option int (numeral_val 10 r2)
                    else map_option int (numeral_val 10 r1)))"

definition StrUnsignedDecimalLiteral :: "string \<Rightarrow> rat option" where
  "StrUnsignedDecimalLiteral u =
     (let ip = takeWhile is_digit u;
          r1 = dropWhile is_digit u;
          fp = (case r1 of [] \<Rightarrow> [] | c # r \<Rightarrow> if c = CHR ''.'' then takeWhile is_digit r else []);
          r2 = (case r1 of [] \<Rightarrow> [] | c # r \<Rightarrow> if c = CHR ''.'' then dropWhile is_digit r else r1)
      in if ip = [] \<and> fp = [] then None
         else (case (digits_val 10 0 (ip @ fp), ExponentPart r2) of
                 (Some m, Some e) \<Rightarrow> Some (of_nat m * pow10 (e - int (length fp)))
               | _ \<Rightarrow> None))"

definition StringToNumber :: "string \<Rightarrow> jsnum" where
  "StringToNumber s =
     (let t = trim s in
      if t = [] then Fin 0
      else (case NonDecimalIntegerLiteral t of
              Some n \<Rightarrow> Fin (of_nat n)
            | None \<Rightarrow>
                (let neg = (hd t = CHR ''-'');
                     u = (if hd t \<in> set ''+-'' then tl t else t)
                 in if u = ''Infinity'' then (if neg then NegInf else PosInf)
                    else (case StrUnsignedDecimalLiteral u of
                            None \<Rightarrow> NaN
                          | Some q \<Rightarrow> Fin (if neg then - q else q)))))"

fun Number :: "jsval \<Rightarrow> jsnum" where
  "Number JUndefined = NaN"
| "Number JNull = Fin 0"
| "Number (JBool b) = Fin (if b then 1 else 0)"
| "Number (JNum n) = n"
| "Number (JStr s) = StringToNumber s"

fun Number_isInteger :: "jsnum \<Rightarrow> bool" where
  "Number_isInteger (Fin q) = (of_int \<lfloor>q\<rfloor> = q)"
| "Number_isInteger _ = False"

text \<open>\<^verbatim>\<open>a < b\<close> on numbers: false as soon as one side is NaN.\<close>

fun num_lt :: "jsnum \<Rightarrow> jsnum \<Rightarrow> bool" where
  "num_lt NaN _ = False"
| "num_lt _ NaN = False"
| "num_lt (Fin a) (Fin b) = (a < b)"
| "num_lt NegInf b = (b \<noteq> NegInf)"
| "num_lt a PosInf = (a \<noteq> PosInf)"
| "num_lt _ _ = False"

text \<open>
  \<^verbatim>\<open>a < b\<close> on values: two strings compare by code units, anything else after numeric
  coercion.
\<close>

fun js_lt :: "jsval \<Rightarrow> jsval \<Rightarrow> bool" where
  "js_lt (JStr a) (JStr b) = (a < b)"
| "js_lt a b = num_lt (Number a) (Number b)"

text \<open>
  \<^verbatim>\<open>x.length\<close>: the number of code units of a string; a boolean or a number has no such
  property. On \<open>undefined\<close> and \<open>null\<close> the engine throws, but the program reads
  \<^verbatim>\<open>.length\<close> only to the right of \<^verbatim>\<open>!x ||\<close>, which has returned by then.
\<close>

fun get_length :: "jsval \<Rightarrow> jsval" where
  "get_length (JStr s) = JNum (Fin (of_nat (length s)))"
| "get_length _ = JUndefined"

subsection \<open>String(x) and the two tests applied to its result\<close>

text \<open>
  ToString of a number is a numeral text over the characters \<^verbatim>\<open>0-9 . e + -\<close> or one of the
  words \<^verbatim>\<open>Infinity\<close>, \<^verbatim>\<open>-Infinity\<close>, \<^verbatim>\<open>NaN\<close>; it never starts with \<^verbatim>\<open>+\<close> and never holds \<^verbatim>\<open>@\<close>.
  Its digits are not modelled: the text of a number is kept as \<open>NumText\<close>, and the two
  tests the program applies to a converted value answer for every such text at once.
\<close>

datatype jstext = Chars string | NumText jsnum

fun ToString :: "jsval \<Rightarrow> jstext" where
  "ToString JUndefined = Chars ''undefined''"
| "ToString JNull = Chars ''null''"
| "ToString (JBool b) = Chars (if b then ''true'' else ''false'')"
| "ToString (JNum n) = NumText n"
| "ToString (JStr s) = Chars s"

fun includes_at :: "jstext \<Rightarrow> bool" where
  "includes_at (Chars s) = (CHR ''@'' \<in> set s)"
| "includes_at (NumText n) = False"

text \<open>
  \<^verbatim>\<open>const phoneRegex = /^\+\d{1,3}-\d{3}-\d{3}-\d{4}$/\<close>. A pattern is a sequence of items,
  a literal character or a bounded run of digits; the whole input must be consumed
  (\<^verbatim>\<open>^\<close> and \<^verbatim>\<open>$\<close> without the multiline flag anchor at both ends of the input).
\<close>

datatype item = Lit char | Digits nat nat

fun match_items :: "item list \<Rightarrow> string \<Rightarrow> bool" where
  "match_items [] s = (s = [])"
| "match_items (Lit c # r) s = (case s of [] \<Rightarrow> False | x # xs \<Rightarrow> x = c \<and> match_items r xs)"
| "match_items (Digits lo hi # r) s =
     list_ex (\<lambda>n. n \<le> length s \<and> list_all is_digit (take n s) \<and> match_items r (drop n s))
       [lo..<Suc hi]"

definition phoneRegex :: "item list" where
  "phoneRegex = [Lit CHR ''+'', Digits 1 3, Lit CHR ''-'', Digits 3 3, Lit CHR ''-'',
                 Digits 3 3, Lit CHR ''-'', Digits 4 4]"

fun regex_test :: "item list \<Rightarrow> jstext \<Rightarrow> bool" where
  "regex_test re (Chars s) = match_items re s"
| "regex_test re (NumText n) = False"

section \<open>The Validation Layer\<close>

definition validateRegistration :: "object option \<Rightarrow> string option" where
  "validateRegistration payload =
     (case payload of
        None \<Rightarrow> Some ''Missing registration data.''
      | Some p \<Rightarrow>
          (let fullName = property p ''fullName''; sex = property p ''sex''; phone = property p ''phone'';
               email = property p ''email''; destination = property p ''destination'';
               city = property p ''city''; persons = property p ''persons'';
               travelTime = property p ''travelTime''
           in if \<not> truthy fullName \<or> js_lt (get_length fullName) (JNum (Fin 2))
              then Some ''Full name is required.''
              else if \<not> truthy sex then Some ''Sex is required.''
              else if \<not> regex_test phoneRegex (ToString (js_or phone (JStr '''')))
              then Some ''Phone must match +234-801-234-5678 format.''
              else if \<not> truthy email \<or> \<not> includes_at (ToString email)
              then Some ''Email is required.''
              else if \<not> truthy destination then Some ''Destination is required.''
              else if \<not> truthy city \<or> js_lt (get_length city) (JNum (Fin 2))
              then Some ''City is required.''
              else (let personsNumber = Number persons
                    in if \<not> Number_isInteger personsNumber
                          \<or> num_lt personsNumber (Fin 1) \<or> num_lt (Fin 20) personsNumber
                       then Some ''Number of persons must be between 1 and 20.''
                       else if \<not> truthy travelTime then Some ''Travel time is required.''
                       else None)))"

section \<open>The store\<close>

text \<open>
  The SQLite file, seen through the statements the program sends. A table has columns,
  rows and the high-water mark that \<^verbatim>\<open>AUTOINCREMENT\<close> keeps; a row is an object whose
  property names are column names. A row keeps the values that were bound to the statement
  that wrote it; \<open>null\<close> is SQL's \<^verbatim>\<open>NULL\<close>. The rewriting SQLite applies to a non-text value
  bound to a \<^verbatim>\<open>TEXT\<close> column is not modelled. The column named \<^verbatim>\<open>id\<close> is the
  \<^verbatim>\<open>INTEGER PRIMARY KEY AUTOINCREMENT\<close> of both tables. \<open>online\<close> is false when the file
  cannot be read or written: every statement then calls back with an error.
\<close>

record column =
  cname :: string
  notnull :: bool
  uniq :: bool
  dflt :: jsval

record table =
  columns :: "column list"
  rows :: "object list"
  seq :: int

datatype tname = Registrations | Admins

record database =
  registrations :: "table option"
  admins :: "table option"
  online :: bool

datatype db_error = Unavailable | NoSuchTable | NoSuchColumn | DuplicateColumn | ConstraintFailed

definition get_table :: "database \<Rightarrow> tname \<Rightarrow> db_error + table" where
  "get_table db n =
     (if \<not> online db then Inl Unavailable
      else (case (case n of Registrations \<Rightarrow> registrations db | Admins \<Rightarrow> admins db) of
              None \<Rightarrow> Inl NoSuchTable
            | Some t \<Rightarrow> Inr t))"

definition put_table :: "database \<Rightarrow> tname \<Rightarrow> table \<Rightarrow> database" where
  "put_table db n t =
     (case n of Registrations \<Rightarrow> db\<lparr>registrations := Some t\<rparr>
              | Admins \<Rightarrow> db\<lparr>admins := Some t\<rparr>)"

definition has_columns :: "table \<Rightarrow> string list \<Rightarrow> bool" where
  "has_columns t names = list_all (\<lambda>n. n \<in> set (map cname (columns t))) names"

definition is_null :: "jsval \<Rightarrow> bool" where
  "is_null v = (v = JNull \<or> v = JUndefined)"

text \<open>\<^verbatim>\<open>column = ?\<close> in a \<^verbatim>\<open>WHERE\<close> clause; a comparison with \<^verbatim>\<open>NULL\<close> selects nothing.\<close>

definition sql_eq :: "jsval \<Rightarrow> jsval \<Rightarrow> bool" where
  "sql_eq a b = (\<not> is_null a \<and> \<not> is_null b \<and> a = b)"

definition row_id :: "object \<Rightarrow> int" where
  "row_id r = (case property r ''id'' of JNum (Fin q) \<Rightarrow> \<lfloor>q\<rfloor> | _ \<Rightarrow> 0)"

text \<open>The next \<^verbatim>\<open>AUTOINCREMENT\<close> key: one more than the largest key the table ever held.\<close>

definition next_id :: "table \<Rightarrow> int" where
  "next_id t = foldr max (map row_id (rows t)) (seq t) + 1"

definition violates :: "table \<Rightarrow> object list \<Rightarrow> object \<Rightarrow> bool" where
  "violates t others r =
     list_ex (\<lambda>c. (notnull c \<and> is_null (property r (cname c)))
                 \<or> (uniq c \<and> list_ex (\<lambda>r'. sql_eq (property r' (cname c)) (property r (cname c))) others))
       (columns t)"

text \<open>
  \<^verbatim>\<open>INSERT INTO t (names) VALUES (?, ...)\<close>: a column that is not named takes its default, the
  key column the next key. The result is \<^verbatim>\<open>this.lastID\<close> and the new table.
\<close>

definition sql_insert :: "database \<Rightarrow> tname \<Rightarrow> object \<Rightarrow> db_error + (int \<times> database)" where
  "sql_insert db n binds =
     (case get_table db n of
        Inl e \<Rightarrow> Inl e
      | Inr t \<Rightarrow>
          if \<not> has_columns t (map fst binds) then Inl NoSuchColumn
          else (let k = next_id t;
                    r = map (\<lambda>c. (cname c,
                                  if cname c = ''id'' then JNum (Fin (of_int k))
                                  else (case map_of binds (cname c) of
                                          Some v \<Rightarrow> v
                                        | None \<Rightarrow> dflt c)))
                          (columns t)
                in if violates t (rows t) r then Inl ConstraintFailed
                   else Inr (k, put_table db n (t\<lparr>rows := rows t @ [r], seq := k\<rparr>))))"

definition project :: "string list \<Rightarrow> object \<Rightarrow> object" where
  "project names r = map (\<lambda>n. (n, property r n)) names"

text \<open>\<^verbatim>\<open>SELECT names FROM t WHERE w = ?\<close> through \<^verbatim>\<open>db.get\<close>: the first matching row, if any.\<close>

definition sql_get :: "database \<Rightarrow> tname \<Rightarrow> string list \<Rightarrow> string \<Rightarrow> jsval
                       \<Rightarrow> db_error + object option" where
  "sql_get db n names w v =
     (case get_table db n of
        Inl e \<Rightarrow> Inl e
      | Inr t \<Rightarrow>
          if \<not> has_columns t (w # names) then Inl NoSuchColumn
          else Inr (map_option (project names)
                      (find (\<lambda>r. sql_eq (property r w) v) (rows t))))"

definition text_key :: "jsval \<Rightarrow> string" where
  "text_key v = (case v of JStr s \<Rightarrow> s | _ \<Rightarrow> [])"

text \<open>
  \<^verbatim>\<open>SELECT names FROM t ORDER BY o DESC\<close> through \<^verbatim>\<open>db.all\<close>. Text keys sort by code units;
  rows with equal keys come out in reverse insertion order, where SQLite promises no order.
\<close>

definition sql_all_desc :: "database \<Rightarrow> tname \<Rightarrow> string list \<Rightarrow> string
                            \<Rightarrow> db_error + object list" where
  "sql_all_desc db n names ob =
     (case get_table db n of
        Inl e \<Rightarrow> Inl e
      | Inr t \<Rightarrow>
          if \<not> has_columns t (ob # names) then Inl NoSuchColumn
          else Inr (map (project names)
                      (rev (sort_key (\<lambda>r. text_key (property r ob)) (rows t)))))"

definition assign :: "object \<Rightarrow> object \<Rightarrow> object" where
  "assign binds r =
     map (\<lambda>(k, v). (k, case map_of binds k of Some v' \<Rightarrow> v' | None \<Rightarrow> v)) r"

text \<open>
  \<^verbatim>\<open>UPDATE t SET names = ? WHERE w = ?\<close>: the result is \<^verbatim>\<open>this.changes\<close>, the number of rows
  the statement matched, and the new table.
\<close>

definition sql_update :: "database \<Rightarrow> tname \<Rightarrow> object \<Rightarrow> string \<Rightarrow> jsval
                          \<Rightarrow> db_error + (nat \<times> database)" where
  "sql_update db n binds w v =
     (case get_table db n of
        Inl e \<Rightarrow> Inl e
      | Inr t \<Rightarrow>
          if \<not> has_columns t (w # map fst binds) then Inl NoSuchColumn
          else (let hit = (\<lambda>r. sql_eq (property r w) v);
                    rs = map (\<lambda>r. if hit r then assign binds r else r) (rows t)
                in if list_ex (\<lambda>r. hit r \<and> violates t (filter (\<lambda>r'. \<not> hit r') (rows t))
                                             (assign binds r)) (rows t)
                   then Inl ConstraintFailed
                   else Inr (length (filter hit (rows t)), put_table db n (t\<lparr>rows := rs\<rparr>))))"

text \<open>\<^verbatim>\<open>DELETE FROM t WHERE w = ?\<close>, again with \<^verbatim>\<open>this.changes\<close>.\<close>

definition sql_delete :: "database \<Rightarrow> tname \<Rightarrow> string \<Rightarrow> jsval \<Rightarrow> db_error + (nat \<times> database)" where
  "sql_delete db n w v =
     (case get_table db n of
        Inl e \<Rightarrow> Inl e
      | Inr t \<Rightarrow>
          if \<not> has_columns t [w] then Inl NoSuchColumn
          else (let hit = (\<lambda>r. sql_eq (property r w) v)
                in Inr (length (filter hit (rows t)),
                        put_table db n (t\<lparr>rows := filter (\<lambda>r. \<not> hit r) (rows t)\<rparr>))))"

text \<open>\<^verbatim>\<open>CREATE TABLE IF NOT EXISTS\<close>: nothing happens to a table that is there.\<close>

definition sql_create_table :: "database \<Rightarrow> tname \<Rightarrow> column list \<Rightarrow> db_error + database" where
  "sql_create_table db n cs =
     (case get_table db n of
        Inl NoSuchTable \<Rightarrow> Inr (put_table db n \<lparr>columns = cs, rows = [], seq = 0\<rparr>)
      | Inl e \<Rightarrow> Inl e
      | Inr t \<Rightarrow> Inr db)"

text \<open>
  \<^verbatim>\<open>ALTER TABLE t ADD COLUMN c\<close>: an error when the column is there already, else every
  row takes the column's default.
\<close>

definition sql_add_column :: "database \<Rightarrow> tname \<Rightarrow> column \<Rightarrow> db_error + database" where
  "sql_add_column db n c =
     (case get_table db n of
        Inl e \<Rightarrow> Inl e
      | Inr t \<Rightarrow>
          if has_columns t [cname c] then Inl DuplicateColumn
          else Inr (put_table db n
                      (t\<lparr>columns := columns t @ [c],
                         rows := map (\<lambda>r. r @ [(cname c, dflt c)]) (rows t)\<rparr>)))"

section \<open>Schema set-up and the default administrator\<close>

definition col :: "string \<Rightarrow> bool \<Rightarrow> bool \<Rightarrow> jsval \<Rightarrow> column" where
  "col n nn u d = \<lparr>cname = n, notnull = nn, uniq = u, dflt = d\<rparr>"

definition registrations_columns :: "column list" where
  "registrations_columns =
     [col ''id'' False True JNull,
      col ''full_name'' True False JNull,
      col ''sex'' True False JNull,
      col ''phone'' True False JNull,
      col ''email'' True False JNull,
      col ''destination'' True False JNull,
      col ''city'' True False JNull,
      col ''persons'' True False JNull,
      col ''travel_time'' True False JNull,
      col ''message'' False False JNull,
      col ''created_at'' True False JNull]"

definition admins_columns :: "column list" where
  "admins_columns =
     [col ''id'' False True JNull,
      col ''username'' True True JNull,
      col ''password_hash'' True False JNull]"

text \<open>\<^verbatim>\<open>process.env.X || "fallback"\<close>: an unset or empty variable gives the fallback.\<close>

record env =
  ADMIN_USERNAME :: "string option"
  ADMIN_PASSWORD :: "string option"

definition env_or :: "string option \<Rightarrow> string \<Rightarrow> string" where
  "env_or v d = (case v of None \<Rightarrow> d | Some s \<Rightarrow> if s = [] then d else s)"

text \<open>
  \<open>hash\<close> stands for \<^verbatim>\<open>bcrypt.hash\<close>, called with the password and the cost; \<open>None\<close> is its
  error. What the program writes to the console is not modelled.
\<close>

definition ensureDefaultAdmin :: "env \<Rightarrow> (string \<Rightarrow> nat \<Rightarrow> string option) \<Rightarrow> database \<Rightarrow> database" where
  "ensureDefaultAdmin e hash db =
     (let adminUsername = env_or (ADMIN_USERNAME e) ''admin'';
          adminPassword = env_or (ADMIN_PASSWORD e) ''admin123''
      in case sql_get db Admins [''id''] ''username'' (JStr adminUsername) of
           Inl err \<Rightarrow> db
         | Inr (Some row) \<Rightarrow> db
         | Inr None \<Rightarrow>
             (case hash adminPassword 10 of
                None \<Rightarrow> db
              | Some h \<Rightarrow>
                  (case sql_insert db Admins
                          [(''username'', JStr adminUsername), (''password_hash'', JStr h)] of
                     Inl insertErr \<Rightarrow> db
                   | Inr (k, db') \<Rightarrow> db')))"

text \<open>
  A statement sent without a callback, or with \<^verbatim>\<open>() => undefined\<close>, leaves the store as it
  was when it fails.
\<close>

definition ignoring :: "database \<Rightarrow> db_error + database \<Rightarrow> database" where
  "ignoring db r = (case r of Inl e \<Rightarrow> db | Inr db' \<Rightarrow> db')"

definition initializeDatabase :: "env \<Rightarrow> (string \<Rightarrow> nat \<Rightarrow> string option) \<Rightarrow> database \<Rightarrow> database" where
  "initializeDatabase e hash db =
     (let db1 = ignoring db (sql_create_table db Registrations registrations_columns);
          db2 = ignoring db1 (sql_add_column db1 Registrations (col ''city'' True False (JStr [])));
          db3 = ignoring db2 (sql_add_column db2 Registrations (col ''email'' True False (JStr [])));
          db4 = ignoring db3 (sql_create_table db3 Admins admins_columns)
      in ensureDefaultAdmin e hash db4)"

text \<open>
  The four schema statements of \<open>initializeDatabase\<close> on their own, and what
  \<^verbatim>\<open>ALTER TABLE ... ADD COLUMN\<close> with an ignored error does to a table.
\<close>

definition schema_statements :: "database \<Rightarrow> database" where
  "schema_statements db =
     (let db1 = ignoring db (sql_create_table db Registrations registrations_columns);
          db2 = ignoring db1 (sql_add_column db1 Registrations (col ''city'' True False (JStr [])));
          db3 = ignoring db2 (sql_add_column db2 Registrations (col ''email'' True False (JStr [])))
      in ignoring db3 (sql_create_table db3 Admins admins_columns))"

definition with_column :: "column \<Rightarrow> table \<Rightarrow> table" where
  "with_column c t =
     (if has_columns t [cname c] then t
      else t\<lparr>columns := columns t @ [c], rows := map (\<lambda>r. r @ [(cname c, dflt c)]) (rows t)\<rparr>)"

section \<open>The HTTP API\<close>

text \<open>
  A request carries the session object that the session middleware attached (if any), the
  route parameters and the parsed body (if any). A response is a status, the headers the
  handler set and the JSON body. \<open>Thrown\<close> stands for an exception that leaves the handler.
\<close>

record request =
  session :: "object option"
  params :: object
  body :: "object option"

datatype reply =
    Message string
  | Saved int
  | Data object
  | DataList "object list"
  | Username jsval
  | Thrown string

record response =
  status :: nat
  headers :: "(string \<times> string) list"
  json :: reply

definition send :: "nat \<Rightarrow> reply \<Rightarrow> response" where
  "send code b = \<lparr>status = code, headers = [], json = b\<rparr>"

definition send_no_store :: "nat \<Rightarrow> reply \<Rightarrow> response" where
  "send_no_store code b = \<lparr>status = code, headers = [(''Cache-Control'', ''no-store'')], json = b\<rparr>"

type_synonym handler = "request \<Rightarrow> database \<Rightarrow> response \<times> database"

text \<open>\<^verbatim>\<open>req.session && req.session.adminId\<close>\<close>

definition has_admin :: "request \<Rightarrow> bool" where
  "has_admin req = (case session req of None \<Rightarrow> False | Some s \<Rightarrow> truthy (property s ''adminId''))"

definition isAdmin :: "handler \<Rightarrow> handler" where
  "isAdmin next req db =
     (if has_admin req then next req db
      else (send 401 (Message ''Unauthorized''), db))"

definition registration_binds :: "object \<Rightarrow> object" where
  "registration_binds p =
     [(''full_name'', property p ''fullName''),
      (''sex'', property p ''sex''),
      (''phone'', property p ''phone''),
      (''email'', property p ''email''),
      (''destination'', property p ''destination''),
      (''city'', property p ''city''),
      (''persons'', JNum (Number (property p ''persons''))),
      (''travel_time'', property p ''travelTime''),
      (''message'', js_or (property p ''message'') (JStr []))]"

text \<open>
  \<^verbatim>\<open>app.post("/api/registrations", ...)\<close>; \<open>now\<close> is \<^verbatim>\<open>new Date().toISOString()\<close>. Destructuring
  a missing body would throw, but \<open>validateRegistration\<close> has rejected it by then.
\<close>

definition post_registrations :: "string \<Rightarrow> handler" where
  "post_registrations now req db =
     (case validateRegistration (body req) of
        Some error \<Rightarrow> (send 400 (Message error), db)
      | None \<Rightarrow>
          (case body req of
             None \<Rightarrow> (send 500 (Thrown ''TypeError''), db)
           | Some p \<Rightarrow>
               (case sql_insert db Registrations
                       (registration_binds p @ [(''created_at'', JStr now)]) of
                  Inl err \<Rightarrow> (send 500 (Message ''Failed to save registration.''), db)
                | Inr (lastID, db') \<Rightarrow> (send 201 (Saved lastID), db'))))"

definition selected_columns :: "string list" where
  "selected_columns =
     [''id'', ''full_name'', ''sex'', ''phone'', ''email'', ''destination'', ''city'',
      ''persons'', ''travel_time'', ''message'', ''created_at'']"

text \<open>\<^verbatim>\<open>app.get("/api/admin/registrations", isAdmin, ...)\<close>\<close>

definition list_registrations :: handler where
  "list_registrations req db =
     (case sql_all_desc db Registrations selected_columns ''created_at'' of
        Inl err \<Rightarrow> (send_no_store 500 (Message ''Failed to fetch registrations.''), db)
      | Inr rs \<Rightarrow> (send_no_store 200 (DataList rs), db))"

definition get_admin_registrations :: handler where
  "get_admin_registrations = isAdmin list_registrations"

text \<open>\<^verbatim>\<open>app.get("/api/admin/registrations/:id", isAdmin, ...)\<close>\<close>

definition fetch_registration :: handler where
  "fetch_registration req db =
     (let id = Number (property (params req) ''id'')
      in if \<not> Number_isInteger id then (send 400 (Message ''Invalid id.''), db)
         else (case sql_get db Registrations selected_columns ''id'' (JNum id) of
                 Inl err \<Rightarrow> (send_no_store 500 (Message ''Failed to fetch registration.''), db)
               | Inr None \<Rightarrow> (send_no_store 404 (Message ''Not found.''), db)
               | Inr (Some row) \<Rightarrow> (send_no_store 200 (Data row), db)))"

definition get_admin_registrations_id :: handler where
  "get_admin_registrations_id = isAdmin fetch_registration"

text \<open>\<^verbatim>\<open>app.put("/api/admin/registrations/:id", isAdmin, ...)\<close>\<close>

definition update_registration :: handler where
  "update_registration req db =
     (let id = Number (property (params req) ''id'')
      in if \<not> Number_isInteger id then (send 400 (Message ''Invalid id.''), db)
         else (case validateRegistration (body req) of
                 Some error \<Rightarrow> (send 400 (Message error), db)
               | None \<Rightarrow>
                   (case body req of
                      None \<Rightarrow> (send 500 (Thrown ''TypeError''), db)
                    | Some p \<Rightarrow>
                        (case sql_update db Registrations (registration_binds p) ''id'' (JNum id) of
                           Inl err \<Rightarrow> (send 500 (Message ''Failed to update registration.''), db)
                         | Inr (changes, db') \<Rightarrow>
                             if changes = 0 then (send 404 (Message ''Not found.''), db')
                             else (send 200 (Message ''Updated''), db')))))"

definition put_admin_registrations_id :: handler where
  "put_admin_registrations_id = isAdmin update_registration"

text \<open>\<^verbatim>\<open>app.delete("/api/admin/registrations/:id", isAdmin, ...)\<close>\<close>

definition remove_registration :: handler where
  "remove_registration req db =
     (let id = Number (property (params req) ''id'')
      in if \<not> Number_isInteger id then (send 400 (Message ''Invalid id.''), db)
         else (case sql_delete db Registrations ''id'' (JNum id) of
                 Inl err \<Rightarrow> (send 500 (Message ''Failed to delete registration.''), db)
               | Inr (changes, db') \<Rightarrow>
                   if changes = 0 then (send 404 (Message ''Not found.''), db')
                   else (send 200 (Message ''Deleted''), db')))"

definition delete_admin_registrations_id :: handler where
  "delete_admin_registrations_id = isAdmin remove_registration"

subsection \<open>Login, logout and the session check\<close>


text \<open>\<^verbatim>\<open>app.post("/api/admin/logout", ...)\<close>: the session is destroyed.\<close>

definition post_admin_logout :: "request \<Rightarrow> response \<times> object option" where
  "post_admin_logout req =
     (case session req of
        None \<Rightarrow> (send 500 (Thrown ''TypeError''), None)
      | Some s \<Rightarrow> (send 200 (Message ''Logged out''), None))"

text \<open>\<^verbatim>\<open>app.get("/api/admin/me", ...)\<close>\<close>

definition get_admin_me :: "request \<Rightarrow> response" where
  "get_admin_me req =
     (case session req of
        None \<Rightarrow> send 401 (Message ''Unauthorized'')
      | Some s \<Rightarrow>
          if \<not> truthy (property s ''adminId'') then send 401 (Message ''Unauthorized'')
          else send_no_store 200 (Username (property s ''username'')))"

section \<open>The validation rules, one by one\<close>

text \<open>
  The eight tests of \<open>validateRegistration\<close> in the order of the source, each with the
  message it returns. A test is true when the rule is violated.
\<close>

definition fullName_missing :: "object \<Rightarrow> bool" where
  "fullName_missing p =
     (\<not> truthy (property p ''fullName'')
      \<or> js_lt (get_length (property p ''fullName'')) (JNum (Fin 2)))"

definition sex_missing :: "object \<Rightarrow> bool" where
  "sex_missing p = (\<not> truthy (property p ''sex''))"

definition phone_invalid :: "object \<Rightarrow> bool" where
  "phone_invalid p =
     (\<not> regex_test phoneRegex (ToString (js_or (property p ''phone'') (JStr []))))"

definition email_missing :: "object \<Rightarrow> bool" where
  "email_missing p =
     (\<not> truthy (property p ''email'') \<or> \<not> includes_at (ToString (property p ''email'')))"

definition destination_missing :: "object \<Rightarrow> bool" where
  "destination_missing p = (\<not> truthy (property p ''destination''))"

definition city_missing :: "object \<Rightarrow> bool" where
  "city_missing p =
     (\<not> truthy (property p ''city'')
      \<or> js_lt (get_length (property p ''city'')) (JNum (Fin 2)))"


definition travelTime_missing :: "object \<Rightarrow> bool" where
  "travelTime_missing p = (\<not> truthy (property p ''travelTime''))"



text \<open>Example payloads: scenario 1 of the specification, and the same with an invalid phone.\<close>

definition ada :: object where
  "ada =
     [(''fullName'', JStr ''Ada''), (''sex'', JStr ''female''),
      (''phone'', JStr ''+234-801-234-5678''), (''email'', JStr ''a@example.com''),
      (''destination'', JStr ''Kenya''), (''city'', JStr ''Nairobi''),
      (''persons'', JNum (Fin 2)), (''travelTime'', JStr ''2024-05-01T10:00'')]"


section \<open>Example stores and requests\<close>

text \<open>
  A store file that does not exist yet, the default environment, and stand-ins for the two
  bcrypt calls: the example hash of a password is the password behind a fixed prefix.
\<close>

definition empty_store :: database where
  "empty_store = \<lparr>registrations = None, admins = None, online = True\<rparr>"

definition default_env :: env where
  "default_env = \<lparr>ADMIN_USERNAME = None, ADMIN_PASSWORD = None\<rparr>"

definition example_hash :: "string \<Rightarrow> nat \<Rightarrow> string option" where
  "example_hash pw cost = Some (''$2a$10$'' @ pw)"


definition store0 :: database where
  "store0 = initializeDatabase default_env example_hash empty_store"

definition anonymous :: "object \<Rightarrow> object option \<Rightarrow> request" where
  "anonymous ps b = \<lparr>session = Some [], params = ps, body = b\<rparr>"

definition as_admin :: "object \<Rightarrow> object option \<Rightarrow> request" where
  "as_admin ps b =
     \<lparr>session = Some [(''username'', JStr ''admin''), (''adminId'', JNum (Fin 1))],
      params = ps, body = b\<rparr>"

text \<open>The store after scenario 1: one registration, with key 1.\<close>

definition store1 :: database where
  "store1 = snd (post_registrations ''2024-04-01T09:00:00.000Z'' (anonymous [] (Some ada)) store0)"

section \<open>Stores with the schema of this version\<close>




definition registration_rows :: "database \<Rightarrow> object list" where
  "registration_rows db = (case registrations db of None \<Rightarrow> [] | Some t \<Rightarrow> rows t)"








section \<open>Reachable stores\<close>







section \<open>Running the set-up again\<close>

text \<open>
  The schema statements change nothing in a store that is settled: unreadable, or holding
  a registrations table with the two migrated columns and an admins table.
\<close>

definition settled :: "database \<Rightarrow> bool" where
  "settled db =
     (online db \<longrightarrow>
        (case registrations db of
           None \<Rightarrow> False
         | Some t \<Rightarrow> has_columns t [''city''] \<and> has_columns t [''email''])
        \<and> admins db \<noteq> None)"

text \<open>
  Table \<open>t\<close> is kept in \<open>t'\<close> when \<open>t'\<close> has the columns of \<open>t\<close>, in order, before any
  others, and every row of \<open>t\<close> is still at its position in \<open>t'\<close> with each of its
  values, before any values added for new columns.
\<close>

definition kept_in :: "table \<Rightarrow> table \<Rightarrow> bool" where
  "kept_in t t' =
     (prefix (columns t) (columns t')
      \<and> length (rows t) \<le> length (rows t')
      \<and> (\<forall>i<length (rows t). prefix (rows t ! i) (rows t' ! i)))"

text \<open>
  A store written by a version without the \<open>city\<close> and \<open>email\<close> columns, holding one
  registration and no admins table, and a hash function that always fails.
\<close>

definition legacy_row :: object where
  "legacy_row =
     [(''id'', JNum (Fin 1)), (''full_name'', JStr ''Eve''), (''sex'', JStr ''female''),
      (''phone'', JStr ''+1-202-555-0143''), (''destination'', JStr ''Chile''),
      (''persons'', JNum (Fin 1)), (''travel_time'', JStr ''2023-11-05T06:15''),
      (''message'', JNull), (''created_at'', JStr ''2023-09-30T12:00:00.000Z'')]"

definition legacy_store :: database where
  "legacy_store =
     \<lparr>registrations =
        Some \<lparr>columns =
                 [col ''id'' False True JNull, col ''full_name'' True False JNull,
                  col ''sex'' True False JNull, col ''phone'' True False JNull,
                  col ''destination'' True False JNull, col ''persons'' True False JNull,
                  col ''travel_time'' True False JNull, col ''message'' False False JNull,
                  col ''created_at'' True False JNull],
               rows = [legacy_row], seq = 1\<rparr>,
      admins = None, online = True\<rparr>"

definition failing_hash :: "string \<Rightarrow> nat \<Rightarrow> string option" where
  "failing_hash pw cost = None"

section \<open>Validation: order of the rules\<close>





text \<open>
  On text values the eight tests read as the rules are worded: a name and a city of at
  least two code units, a non-empty sex, destination and travel time, a phone that matches
  the pattern, an email that holds \<^verbatim>\<open>@\<close>.
\<close>

lemma rules_on_text:
  "property p ''fullName'' = JStr s \<Longrightarrow> fullName_missing p = (length s < 2)"
  "property p ''sex'' = JStr s \<Longrightarrow> sex_missing p = (s = [])"
  "property p ''phone'' = JStr s \<Longrightarrow> phone_invalid p = (\<not> match_items phoneRegex s)"
  "property p ''email'' = JStr s \<Longrightarrow> email_missing p = (CHR ''@'' \<notin> set s)"
  "property p ''destination'' = JStr s \<Longrightarrow> destination_missing p = (s = [])"
  "property p ''city'' = JStr s \<Longrightarrow> city_missing p = (length s < 2)"
  "property p ''travelTime'' = JStr s \<Longrightarrow> travelTime_missing p = (s = [])"
proof -
  have e: "\<not> match_items phoneRegex []" by (simp add: phoneRegex_def)
  show "property p ''fullName'' = JStr s \<Longrightarrow> fullName_missing p = (length s < 2)"
    by (auto simp add: fullName_missing_def)
  show "property p ''sex'' = JStr s \<Longrightarrow> sex_missing p = (s = [])"
    by (simp add: sex_missing_def)
  show "property p ''phone'' = JStr s \<Longrightarrow> phone_invalid p = (\<not> match_items phoneRegex s)"
    using e by (auto simp add: phone_invalid_def js_or_def)
  show "property p ''email'' = JStr s \<Longrightarrow> email_missing p = (CHR ''@'' \<notin> set s)"
    by (auto simp add: email_missing_def)
  show "property p ''destination'' = JStr s \<Longrightarrow> destination_missing p = (s = [])"
    by (simp add: destination_missing_def)
  show "property p ''city'' = JStr s \<Longrightarrow> city_missing p = (length s < 2)"
    by (auto simp add: city_missing_def)
  show "property p ''travelTime'' = JStr s \<Longrightarrow> travelTime_missing p = (s = [])"
    by (simp add: travelTime_missing_def)
qed

text \<open>The phone examples of the specification.\<close>

lemma phone_examples:
  "match_items phoneRegex ''+234-801-234-5678''"
  "\<not> match_items phoneRegex ''0801234567''"
  "\<not> match_items phoneRegex ''+234-801-234-567''"
  "\<not> match_items phoneRegex ''234-801-234-5678''"
  by code_simp+




section \<open>Validation: the persons rule\<close>









section \<open>Admin-only routes\<close>

text \<open>
  C5. A request whose session is missing, or holds no truthy \<^verbatim>\<open>adminId\<close>, is answered by
  \<open>isAdmin\<close> itself with 401 and the message \<^verbatim>\<open>Unauthorized\<close>, whatever handler it wraps: the
  handler is not applied, the store is returned as it was, and the response carries no
  registration. This holds for the four admin routes on registrations (list, get by id,
  update, delete).
\<close>

theorem isAdmin_rejects:
  assumes "\<not> has_admin req"
  shows "isAdmin next req db = (send 401 (Message ''Unauthorized''), db)
       \<and> get_admin_registrations req db = (send 401 (Message ''Unauthorized''), db)
       \<and> get_admin_registrations_id req db = (send 401 (Message ''Unauthorized''), db)
       \<and> put_admin_registrations_id req db = (send 401 (Message ''Unauthorized''), db)
       \<and> delete_admin_registrations_id req db = (send 401 (Message ''Unauthorized''), db)"
  using assms
  by (simp add: isAdmin_def get_admin_registrations_def get_admin_registrations_id_def
        put_admin_registrations_id_def delete_admin_registrations_id_def)

theorem isAdmin_rejects_witness:
  "\<not> has_admin (anonymous [(''id'', JStr ''1'')] (Some ada))
   \<and> get_admin_registrations (anonymous [(''id'', JStr ''1'')] (Some ada)) store1
        = (send 401 (Message ''Unauthorized''), store1)
   \<and> get_admin_registrations_id (anonymous [(''id'', JStr ''1'')] (Some ada)) store1
        = (send 401 (Message ''Unauthorized''), store1)
   \<and> put_admin_registrations_id (anonymous [(''id'', JStr ''1'')] (Some ada)) store1
        = (send 401 (Message ''Unauthorized''), store1)
   \<and> delete_admin_registrations_id (anonymous [(''id'', JStr ''1'')] (Some ada)) store1
        = (send 401 (Message ''Unauthorized''), store1)
   \<and> fst (get_admin_registrations_id (as_admin [(''id'', JStr ''1'')] None) store1)
        \<noteq> send 401 (Message ''Unauthorized'')"
proof -
  have h: "\<not> has_admin (anonymous [(''id'', JStr ''1'')] (Some ada))"
    by (simp add: has_admin_def anonymous_def property_def)
  have g: "status (fst (get_admin_registrations_id (as_admin [(''id'', JStr ''1'')] None) store1)) = 200"
    by code_simp
  then have "fst (get_admin_registrations_id (as_admin [(''id'', JStr ''1'')] None) store1)
        \<noteq> send 401 (Message ''Unauthorized'')"
    by (auto simp add: send_def)
  with h isAdmin_rejects [OF h, of list_registrations store1] show ?thesis
    by simp
qed

section \<open>Login failures\<close>



section \<open>Writing and reading registrations\<close>











lemma find_append_last:
  "\<forall>r\<in>set xs. \<not> P r \<Longrightarrow> P x \<Longrightarrow> find P (xs @ [x]) = Some x"
  by (induction xs) auto









section \<open>Update and delete\<close>




















section \<open>The number of persons sent as text\<close>



section \<open>An invariant of the reachable stores\<close>

















lemma initializeDatabase_split:
  "initializeDatabase e hash db = ensureDefaultAdmin e hash (schema_statements db)"
  by (simp add: initializeDatabase_def schema_statements_def Let_def)

lemma schema_offline: "\<not> online db \<Longrightarrow> schema_statements db = db"
  by (simp add: schema_statements_def Let_def sql_create_table_def sql_add_column_def
        get_table_def ignoring_def)

lemma add_column_ignored:
  "online db \<Longrightarrow> registrations db = Some t
     \<Longrightarrow> ignoring db (sql_add_column db Registrations c)
           = db\<lparr>registrations := Some (with_column c t)\<rparr>"
  by (cases db) (simp add: sql_add_column_def get_table_def ignoring_def with_column_def put_table_def)

lemma create_registrations_ignored:
  "online db \<Longrightarrow> ignoring db (sql_create_table db Registrations cs)
     = db\<lparr>registrations :=
            Some (case registrations db of
                    None \<Rightarrow> \<lparr>columns = cs, rows = [], seq = 0\<rparr>
                  | Some t \<Rightarrow> t)\<rparr>"
  by (cases db) (simp add: sql_create_table_def get_table_def ignoring_def put_table_def
        split: option.splits)

lemma create_admins_ignored:
  "online db \<Longrightarrow> ignoring db (sql_create_table db Admins cs)
     = db\<lparr>admins :=
            Some (case admins db of
                    None \<Rightarrow> \<lparr>columns = cs, rows = [], seq = 0\<rparr>
                  | Some t \<Rightarrow> t)\<rparr>"
  by (cases db) (simp add: sql_create_table_def get_table_def ignoring_def put_table_def
        split: option.splits)

lemma schema_online:
  "online db \<Longrightarrow> schema_statements db
     = db\<lparr>registrations :=
            Some (with_column (col ''email'' True False (JStr []))
                   (with_column (col ''city'' True False (JStr []))
                     (case registrations db of
                        None \<Rightarrow> \<lparr>columns = registrations_columns, rows = [], seq = 0\<rparr>
                      | Some t \<Rightarrow> t))),
          admins :=
            Some (case admins db of
                    None \<Rightarrow> \<lparr>columns = admins_columns, rows = [], seq = 0\<rparr>
                  | Some t \<Rightarrow> t)\<rparr>"
  by (simp add: schema_statements_def Let_def create_registrations_ignored add_column_ignored
        create_admins_ignored)

lemma with_column_present: "has_columns t [cname c] \<Longrightarrow> with_column c t = t"
  by (simp add: with_column_def)


lemma ensure_keeps_registrations:
  "registrations (ensureDefaultAdmin e hash db) = registrations db
   \<and> online (ensureDefaultAdmin e hash db) = online db"
  by (simp add: ensureDefaultAdmin_def Let_def sql_insert_def put_table_def
        split: sum.splits option.splits)







section \<open>Running the set-up twice\<close>

lemma has_columns_with_column:
  "has_columns (with_column c t) [n] = (has_columns t [n] \<or> n = cname c)"
  by (auto simp add: with_column_def has_columns_def)

lemma schema_settled: "settled (schema_statements db)"
proof (cases "online db")
  case False
  then show ?thesis by (simp add: schema_offline settled_def)
next
  case True
  then show ?thesis
    by (simp add: schema_online settled_def has_columns_with_column col_def)
qed

lemma settled_schema: "settled db \<Longrightarrow> schema_statements db = db"
proof (cases "online db")
  case False
  then show ?thesis by (simp add: schema_offline)
next
  case True
  assume "settled db"
  with True obtain t a where t: "registrations db = Some t" and a: "admins db = Some a"
    and c: "has_columns t [''city'']" and e: "has_columns t [''email'']"
    by (cases "registrations db"; cases "admins db") (simp_all add: settled_def)
  from c e have "with_column (col ''email'' True False (JStr []))
                   (with_column (col ''city'' True False (JStr [])) t) = t"
    by (simp add: with_column_present col_def)
  with True t a show ?thesis
    by (cases db) (simp add: schema_online)
qed

lemma schema_idempotent: "schema_statements (schema_statements db) = schema_statements db"
  by (simp add: settled_schema schema_settled)

lemma property_map_columns:
  assumes "n \<in> set (map cname cs)" and "\<And>c. cname c = n \<Longrightarrow> f c = v"
  shows "property (map (\<lambda>c. (cname c, f c)) cs) n = v"
  using assms(1)
proof (induction cs)
  case Nil
  then show ?case by simp
next
  case (Cons c cs)
  show ?case
  proof (cases "cname c = n")
    case True
    then show ?thesis by (simp add: property_def assms(2))
  next
    case False
    with Cons.prems have "n \<in> set (map cname cs)" by auto
    from Cons.IH [OF this] False show ?thesis by (simp add: property_def)
  qed
qed

lemma insert_admin_row:
  assumes i: "sql_insert d Admins [(''username'', JStr u), (''password_hash'', JStr w)] = Inr (k, d')"
    and t: "get_table d Admins = Inr t"
  shows "\<exists>r. d' = put_table d Admins (t\<lparr>rows := rows t @ [r], seq := next_id t\<rparr>)
           \<and> property r ''username'' = JStr u"
proof -
  let ?f = "\<lambda>c. if cname c = ''id'' then JNum (Fin (of_int (next_id t)))
                else (case map_of [(''username'', JStr u), (''password_hash'', JStr w)] (cname c) of
                        Some v \<Rightarrow> v
                      | None \<Rightarrow> dflt c)"
  from i t have d': "d' = put_table d Admins
                       (t\<lparr>rows := rows t @ [map (\<lambda>c. (cname c, ?f c)) (columns t)],
                          seq := next_id t\<rparr>)"
    by (auto simp add: sql_insert_def Let_def split: if_splits)
  have "has_columns t [''username'', ''password_hash'']"
  proof (rule ccontr)
    assume "\<not> has_columns t [''username'', ''password_hash'']"
    with t have "sql_insert d Admins [(''username'', JStr u), (''password_hash'', JStr w)]
                   = Inl NoSuchColumn"
      by (simp add: sql_insert_def)
    with i show False by simp
  qed
  then have "''username'' \<in> set (map cname (columns t))"
    by (simp add: has_columns_def)
  then have p: "property (map (\<lambda>c. (cname c, ?f c)) (columns t)) ''username'' = JStr u"
    by (rule property_map_columns) simp
  show ?thesis
  proof (intro exI conjI)
    show "d' = put_table d Admins
                 (t\<lparr>rows := rows t @ [map (\<lambda>c. (cname c, ?f c)) (columns t)],
                    seq := next_id t\<rparr>)"
      by (rule d')
    show "property (map (\<lambda>c. (cname c, ?f c)) (columns t)) ''username'' = JStr u"
      by (rule p)
  qed
qed

lemma get_after_put:
  "online d \<Longrightarrow> get_table (put_table d Admins t') Admins = Inr t'"
  by (simp add: get_table_def put_table_def)

lemma get_table_Admins:
  "get_table d Admins = Inr t \<Longrightarrow> online d \<and> admins d = Some t"
  by (auto simp add: get_table_def split: if_splits option.splits)

lemma sql_get_None:
  assumes "sql_get d n names w v = Inr None" and "get_table d n = Inr t"
  shows "has_columns t (w # names)" and "find (\<lambda>r. sql_eq (property r w) v) (rows t) = None"
  using assms by (simp_all add: sql_get_def split: if_splits)

lemma sql_get_Some:
  assumes "get_table d n = Inr t" and "has_columns t (w # names)"
    and "find (\<lambda>r. sql_eq (property r w) v) (rows t) = Some r"
  shows "sql_get d n names w v = Inr (Some (project names r))"
  using assms by (simp add: sql_get_def)

lemma has_columns_rows:
  "has_columns (t\<lparr>rows := rs, seq := k\<rparr>) names = has_columns t names"
  by (simp add: has_columns_def)

lemma admin_found_after_insert:
  assumes g: "sql_get d Admins [''id''] ''username'' (JStr u) = Inr None"
    and i: "sql_insert d Admins [(''username'', JStr u), (''password_hash'', JStr w)] = Inr (k, d')"
  shows "\<exists>row. sql_get d' Admins [''id''] ''username'' (JStr u) = Inr (Some row)"
proof -
  have "\<exists>t. get_table d Admins = Inr t"
  proof (cases "get_table d Admins")
    case (Inl e)
    with g show ?thesis by (simp add: sql_get_def)
  next
    case (Inr t)
    then show ?thesis by simp
  qed
  then obtain t where t: "get_table d Admins = Inr t" ..
  note h = sql_get_None [OF g t]
  from insert_admin_row [OF i t] obtain r
    where d': "d' = put_table d Admins (t\<lparr>rows := rows t @ [r], seq := next_id t\<rparr>)"
      and u: "property r ''username'' = JStr u" by (elim exE conjE)
  from get_table_Admins [OF t] have "online d" by (rule conjunct1)
  then have t': "get_table d' Admins = Inr (t\<lparr>rows := rows t @ [r], seq := next_id t\<rparr>)"
    unfolding d' by (rule get_after_put)
  have new: "sql_eq (property r ''username'') (JStr u)"
    unfolding u by (simp add: sql_eq_def is_null_def)
  from h(2) have old: "\<forall>x\<in>set (rows t). \<not> sql_eq (property x ''username'') (JStr u)"
    by (simp add: find_None_iff)
  from find_append_last [of "rows t" "\<lambda>r. sql_eq (property r ''username'') (JStr u)" r, OF old new]
  have "find (\<lambda>r. sql_eq (property r ''username'') (JStr u)) (rows t @ [r]) = Some r" .
  then have f: "find (\<lambda>r. sql_eq (property r ''username'') (JStr u))
                  (rows (t\<lparr>rows := rows t @ [r], seq := next_id t\<rparr>)) = Some r"
    by simp
  from h(1) have c: "has_columns (t\<lparr>rows := rows t @ [r], seq := next_id t\<rparr>) [''username'', ''id'']"
    by (simp only: has_columns_rows)
  from sql_get_Some [OF t' c f] show ?thesis by (rule exI)
qed

lemma ensure_found:
  "sql_get d Admins [''id''] ''username'' (JStr (env_or (ADMIN_USERNAME e) ''admin'')) = Inr (Some row)
     \<Longrightarrow> ensureDefaultAdmin e hash d = d"
  by (simp add: ensureDefaultAdmin_def Let_def)

lemma ensure_cases:
  "ensureDefaultAdmin e hash d = d
   \<or> (\<exists>w k d'. sql_get d Admins [''id''] ''username''
                      (JStr (env_or (ADMIN_USERNAME e) ''admin'')) = Inr None
               \<and> sql_insert d Admins
                     [(''username'', JStr (env_or (ADMIN_USERNAME e) ''admin'')),
                      (''password_hash'', JStr w)] = Inr (k, d')
               \<and> ensureDefaultAdmin e hash d = d')"
proof -
  let ?u = "env_or (ADMIN_USERNAME e) ''admin''"
  let ?pw = "env_or (ADMIN_PASSWORD e) ''admin123''"
  show ?thesis
  proof (cases "sql_get d Admins [''id''] ''username'' (JStr ?u)")
    case (Inl err)
    then show ?thesis by (simp add: ensureDefaultAdmin_def Let_def)
  next
    case (Inr found)
    show ?thesis
    proof (cases found)
      case (Some row)
      with Inr show ?thesis by (simp add: ensureDefaultAdmin_def Let_def)
    next
      case None
      show ?thesis
      proof (cases "hash ?pw 10")
        case None
        with Inr \<open>found = None\<close> show ?thesis by (simp add: ensureDefaultAdmin_def Let_def)
      next
        case (Some w)
        show ?thesis
        proof (cases "sql_insert d Admins [(''username'', JStr ?u), (''password_hash'', JStr w)]")
          case (Inl insertErr)
          with Inr \<open>found = None\<close> Some show ?thesis
            by (simp add: ensureDefaultAdmin_def Let_def)
        next
          case (Inr res)
          obtain k d' where res: "res = (k, d')" by (cases res)
          with Inr \<open>sql_get d Admins [''id''] ''username'' (JStr ?u) = Inr found\<close>
            \<open>found = None\<close> Some
          have "ensureDefaultAdmin e hash d = d'"
            by (simp add: ensureDefaultAdmin_def Let_def)
          with Inr res \<open>sql_get d Admins [''id''] ''username'' (JStr ?u) = Inr found\<close>
            \<open>found = None\<close>
          show ?thesis by blast
        qed
      qed
    qed
  qed
qed

lemma ensure_idempotent:
  "ensureDefaultAdmin e hash (ensureDefaultAdmin e hash d) = ensureDefaultAdmin e hash d"
proof -
  from ensure_cases [of e hash d] consider "ensureDefaultAdmin e hash d = d"
    | w k d' where "sql_get d Admins [''id''] ''username''
                      (JStr (env_or (ADMIN_USERNAME e) ''admin'')) = Inr None"
      and "sql_insert d Admins
                     [(''username'', JStr (env_or (ADMIN_USERNAME e) ''admin'')),
                      (''password_hash'', JStr w)] = Inr (k, d')"
      and "ensureDefaultAdmin e hash d = d'"
    by blast
  then show ?thesis
  proof cases
    case 1
    then show ?thesis by simp
  next
    case 2
    from admin_found_after_insert [OF 2(1,2)] obtain row
      where "sql_get d' Admins [''id''] ''username''
               (JStr (env_or (ADMIN_USERNAME e) ''admin'')) = Inr (Some row)" by blast
    then have "ensureDefaultAdmin e hash d' = d'" by (rule ensure_found)
    with 2(3) show ?thesis by simp
  qed
qed

lemma insert_admins_frame:
  assumes "sql_insert d Admins binds = Inr (k, d')"
  shows "admins d' \<noteq> None \<and> registrations d' = registrations d \<and> online d' = online d"
proof -
  from assms obtain t where t: "get_table d Admins = Inr t"
    by (cases "get_table d Admins") (simp_all add: sql_insert_def)
  with assms obtain t' where "d' = put_table d Admins t'"
    by (auto simp add: sql_insert_def Let_def split: if_splits)
  then show ?thesis by (simp add: put_table_def)
qed

lemma ensure_frame:
  "registrations (ensureDefaultAdmin e hash d) = registrations d
   \<and> online (ensureDefaultAdmin e hash d) = online d
   \<and> (admins d \<noteq> None \<longrightarrow> admins (ensureDefaultAdmin e hash d) \<noteq> None)"
  using ensure_cases [of e hash d] insert_admins_frame by (metis (no_types, lifting))

lemma ensure_settled: "settled d \<Longrightarrow> settled (ensureDefaultAdmin e hash d)"
  using ensure_frame [of e hash d] by (simp add: settled_def)

lemma init_settled: "settled (initializeDatabase e hash db)"
  by (simp add: initializeDatabase_split ensure_settled schema_settled)

lemma init_idempotent:
  "initializeDatabase e hash (initializeDatabase e hash db) = initializeDatabase e hash db"
proof -
  have "schema_statements (initializeDatabase e hash db) = initializeDatabase e hash db"
    using init_settled by (rule settled_schema)
  then show ?thesis
    by (simp add: initializeDatabase_split [of e hash "initializeDatabase e hash db"])
       (simp add: initializeDatabase_split ensure_idempotent)
qed

lemma init_again_with_admin:
  assumes "sql_get (initializeDatabase e h1 db) Admins [''id''] ''username''
             (JStr (env_or (ADMIN_USERNAME e) ''admin'')) = Inr (Some row)"
  shows "initializeDatabase e h2 (initializeDatabase e h1 db) = initializeDatabase e h1 db"
proof -
  have "schema_statements (initializeDatabase e h1 db) = initializeDatabase e h1 db"
    using init_settled by (rule settled_schema)
  with ensure_found [OF assms] show ?thesis
    by (simp add: initializeDatabase_split [of e h2 "initializeDatabase e h1 db"])
qed

lemma kept_in_refl: "kept_in t t"
  by (simp add: kept_in_def)

lemma kept_in_trans: "kept_in a b \<Longrightarrow> kept_in b c \<Longrightarrow> kept_in a c"
  unfolding kept_in_def
  by (metis (no_types, lifting) le_trans less_le_trans prefix_order.order_trans)

lemma kept_in_with_column: "kept_in t (with_column c t)"
  by (simp add: kept_in_def with_column_def)

lemma distinct_with_column:
  "distinct (map cname (columns t)) \<Longrightarrow> distinct (map cname (columns (with_column c t)))"
  by (simp add: with_column_def has_columns_def)

lemma kept_in_appended: "kept_in t (t\<lparr>rows := rows t @ [r], seq := k\<rparr>)"
  by (simp add: kept_in_def nth_append)

lemma schema_keeps_registrations:
  assumes "registrations db = Some t"
  shows "\<exists>t'. registrations (schema_statements db) = Some t' \<and> kept_in t t'
           \<and> (distinct (map cname (columns t)) \<longrightarrow> distinct (map cname (columns t')))"
proof (cases "online db")
  case False
  with assms show ?thesis by (simp add: schema_offline kept_in_refl)
next
  case True
  let ?t' = "with_column (col ''email'' True False (JStr []))
               (with_column (col ''city'' True False (JStr [])) t)"
  have "kept_in t ?t'"
    by (rule kept_in_trans [OF kept_in_with_column kept_in_with_column])
  moreover have "distinct (map cname (columns t)) \<longrightarrow> distinct (map cname (columns ?t'))"
    by (simp add: distinct_with_column)
  moreover from True assms have "registrations (schema_statements db) = Some ?t'"
    by (simp add: schema_online)
  ultimately show ?thesis by blast
qed

lemma schema_keeps_admins:
  "admins db = Some t \<Longrightarrow> admins (schema_statements db) = Some t"
  by (cases "online db") (simp_all add: schema_offline schema_online)

lemma ensure_keeps_admins:
  assumes "admins d = Some t"
  shows "\<exists>t'. admins (ensureDefaultAdmin e hash d) = Some t' \<and> kept_in t t'
           \<and> columns t' = columns t"
proof -
  from ensure_cases [of e hash d] consider "ensureDefaultAdmin e hash d = d"
    | w k d' where "sql_insert d Admins
                     [(''username'', JStr (env_or (ADMIN_USERNAME e) ''admin'')),
                      (''password_hash'', JStr w)] = Inr (k, d')"
      and "ensureDefaultAdmin e hash d = d'"
    by blast
  then show ?thesis
  proof cases
    case 1
    with assms show ?thesis by (simp add: kept_in_refl)
  next
    case 2
    from 2(1) obtain t0 where t0: "get_table d Admins = Inr t0"
      by (cases "get_table d Admins") (simp_all add: sql_insert_def)
    with assms have "t0 = t" by (simp add: get_table_Admins)
    with insert_admin_row [OF 2(1) t0] obtain r
      where "d' = put_table d Admins (t\<lparr>rows := rows t @ [r], seq := next_id t\<rparr>)"
      by (elim exE conjE) simp
    then have "admins d' = Some (t\<lparr>rows := rows t @ [r], seq := next_id t\<rparr>)"
      by (simp add: put_table_def)
    with 2(2) show ?thesis by (simp add: kept_in_appended)
  qed
qed

text \<open>
  C9. On every store: running the schema statements twice gives what running them once
  gives, and so does running the whole of \<open>initializeDatabase\<close> twice with the same
  environment and the same outcome of the hash; once a run has left the default
  administrator in place, a later run changes nothing whatever its hash does. A statement
  that fails, as the \<^verbatim>\<open>ALTER TABLE\<close> of a column that is there does, leaves the store as
  it was. A table that was there is kept: its columns stay first and in order, every row
  stays at its position with each of its values, and column names that were distinct stay
  distinct, so no column is added twice.
\<close>

theorem initializeDatabase_idempotent:
  "schema_statements (schema_statements db) = schema_statements db
   \<and> initializeDatabase e hash (initializeDatabase e hash db) = initializeDatabase e hash db
   \<and> (sql_get (initializeDatabase e hash db) Admins [''id''] ''username''
          (JStr (env_or (ADMIN_USERNAME e) ''admin'')) = Inr (Some row)
       \<longrightarrow> initializeDatabase e hash' (initializeDatabase e hash db)
             = initializeDatabase e hash db)
   \<and> (registrations db = Some t
       \<longrightarrow> (\<exists>t'. registrations (initializeDatabase e hash db) = Some t' \<and> kept_in t t'
                 \<and> (distinct (map cname (columns t)) \<longrightarrow> distinct (map cname (columns t')))))
   \<and> (admins db = Some a
       \<longrightarrow> (\<exists>a'. admins (initializeDatabase e hash db) = Some a' \<and> kept_in a a'
                 \<and> columns a' = columns a))"
proof (intro conjI impI)
  show "schema_statements (schema_statements db) = schema_statements db"
    by (rule schema_idempotent)
  show "initializeDatabase e hash (initializeDatabase e hash db) = initializeDatabase e hash db"
    by (rule init_idempotent)
next
  assume "sql_get (initializeDatabase e hash db) Admins [''id''] ''username''
            (JStr (env_or (ADMIN_USERNAME e) ''admin'')) = Inr (Some row)"
  then show "initializeDatabase e hash' (initializeDatabase e hash db)
               = initializeDatabase e hash db"
    by (rule init_again_with_admin)
next
  assume "registrations db = Some t"
  from schema_keeps_registrations [OF this]
  show "\<exists>t'. registrations (initializeDatabase e hash db) = Some t' \<and> kept_in t t'
              \<and> (distinct (map cname (columns t)) \<longrightarrow> distinct (map cname (columns t')))"
    by (simp add: initializeDatabase_split ensure_keeps_registrations)
next
  assume "admins db = Some a"
  then have "admins (schema_statements db) = Some a"
    by (rule schema_keeps_admins)
  from ensure_keeps_admins [OF this]
  show "\<exists>a'. admins (initializeDatabase e hash db) = Some a' \<and> kept_in a a'
              \<and> columns a' = columns a"
    by (simp add: initializeDatabase_split)
qed

theorem initializeDatabase_idempotent_witness:
  "initializeDatabase default_env example_hash
       (initializeDatabase default_env example_hash legacy_store)
     = initializeDatabase default_env example_hash legacy_store
   \<and> initializeDatabase default_env failing_hash
       (initializeDatabase default_env example_hash legacy_store)
     = initializeDatabase default_env example_hash legacy_store
   \<and> registration_rows (initializeDatabase default_env example_hash legacy_store)
     = [legacy_row @ [(''city'', JStr []), (''email'', JStr [])]]"
proof -
  have g: "sql_get (initializeDatabase default_env example_hash legacy_store) Admins [''id'']
             ''username'' (JStr (env_or (ADMIN_USERNAME default_env) ''admin''))
           = Inr (Some [(''id'', JNum (Fin 1))])"
    by code_simp
  have r: "registration_rows (initializeDatabase default_env example_hash legacy_store)
     = [legacy_row @ [(''city'', JStr []), (''email'', JStr [])]]"
    by code_simp
  note w = initializeDatabase_idempotent [where db = legacy_store and e = default_env
        and hash = example_hash and hash' = failing_hash and row = "[(''id'', JNum (Fin 1))]"]
  from w [THEN conjunct2, THEN conjunct1]
  have a: "initializeDatabase default_env example_hash
       (initializeDatabase default_env example_hash legacy_store)
     = initializeDatabase default_env example_hash legacy_store" .
  from w [THEN conjunct2, THEN conjunct2, THEN conjunct1, THEN mp, OF g]
  have b: "initializeDatabase default_env failing_hash
       (initializeDatabase default_env example_hash legacy_store)
     = initializeDatabase default_env example_hash legacy_store" .
  from a b r show ?thesis by (intro conjI)
qed

end
